theory Spec2Isabelle
  imports Main
begin

section \<open>The interpreter state the script can touch\<close>

text \<open>
  The script \<^verbatim>\<open>test-scraper-waits.py\<close> is a sequence of module-level statements: three
  imports, one \<^verbatim>\<open>sys.path.insert\<close>, the definition of the coroutine
  \<^verbatim>\<open>test_scraper_timing\<close>, and the guarded call \<^verbatim>\<open>asyncio.run(test_scraper_timing())\<close>.
  The state below holds what those statements can reach: the text written to standard
  output, \<^verbatim>\<open>sys.path\<close>, \<^verbatim>\<open>sys.argv\<close>, \<^verbatim>\<open>os.environ\<close>, a trace of the import
  statements executed (each with the search path in force when it ran), and the
  filesystem and the network traffic of the process.
\<close>

record pystate =
  stdout :: string
  sys_path :: "string list"
  sys_argv :: "string list"
  os_environ :: "(string \<times> string) list"
  import_log :: "(string \<times> string list) list"
  files :: "(string \<times> string) list"
  network :: "string list"

text \<open>
  An uncaught exception is a value. A statement maps a state to the exception it raised,
  if any, and the state it left behind.
\<close>

datatype exn = Exception string

type_synonym action = "pystate \<Rightarrow> exn option \<times> pystate"

section \<open>Built-in operations used by the script\<close>

text \<open>\<^verbatim>\<open>print(x)\<close> with one string argument writes \<open>x\<close> and a newline to standard output.\<close>

definition print :: "string \<Rightarrow> action" where
  "print x s = (None, s\<lparr>stdout := stdout s @ x @ ''\<newline>''\<rparr>)"

text \<open>\<^verbatim>\<open>s * n\<close> on a string: \<open>n\<close> copies of \<open>s\<close>, none when \<open>n\<close> is not positive.\<close>

definition str_mul :: "string \<Rightarrow> int \<Rightarrow> string" where
  "str_mul x n = concat (replicate (nat n) x)"

text \<open>
  \<^verbatim>\<open>os.path.dirname\<close> and \<^verbatim>\<open>os.path.join\<close> (two arguments), as \<^verbatim>\<open>posixpath\<close> has them:
  the directory part is everything up to and including the last slash, with trailing
  slashes removed unless it consists of slashes only; joining keeps the second component
  alone when it is absolute and otherwise inserts one slash where none is there.
\<close>

definition os_path_dirname :: "string \<Rightarrow> string" where
  "os_path_dirname p =
     (let head = rev (dropWhile (\<lambda>c. c \<noteq> CHR ''/'') (rev p)) in
      if head = [] then head
      else if head = replicate (length head) (CHR ''/'') then head
      else rev (dropWhile (\<lambda>c. c = CHR ''/'') (rev head)))"

definition os_path_join :: "string \<Rightarrow> string \<Rightarrow> string" where
  "os_path_join a b =
     (if take 1 b = ''/'' then b
      else if a = [] then a @ b
      else if last a = CHR ''/'' then a @ b
      else a @ ''/'' @ b)"

text \<open>\<^verbatim>\<open>list.insert(i, x)\<close> for an index \<open>i \<ge> 0\<close>: past the end it appends.\<close>

definition list_insert :: "nat \<Rightarrow> 'a \<Rightarrow> 'a list \<Rightarrow> 'a list" where
  "list_insert i x xs = take i xs @ x # drop i xs"

definition sys_path_insert :: "nat \<Rightarrow> string \<Rightarrow> action" where
  "sys_path_insert i x s = (None, s\<lparr>sys_path := list_insert i x (sys_path s)\<rparr>)"

text \<open>
  \<^verbatim>\<open>import m\<close>: the trace records the module's name and the search path at that
  moment, which is the only path the import machinery can consult for it.
\<close>

definition py_import :: "string \<Rightarrow> action" where
  "py_import m s = (None, s\<lparr>import_log := import_log s @ [(m, sys_path s)]\<rparr>)"

section \<open>Statement sequences and coroutines\<close>

text \<open>Statements in sequence: the first exception ends the sequence.\<close>

fun exec_seq :: "action list \<Rightarrow> action" where
  "exec_seq [] s = (None, s)"
| "exec_seq (a # as) s =
     (case a s of
        (None, s') \<Rightarrow> exec_seq as s'
      | (Some e, s') \<Rightarrow> (Some e, s'))"

text \<open>
  The body of an \<^verbatim>\<open>async def\<close> is a list of steps: an ordinary statement, or a point
  where the coroutine hands control back to the event loop (an \<^verbatim>\<open>await\<close> that suspends).
  Resuming a coroutine runs it to its next suspension point, to its end, or to an
  exception.
\<close>

datatype costep = Run action | Await

datatype progress = Finished | Suspended "costep list" | Failed exn

fun coro_send :: "costep list \<Rightarrow> pystate \<Rightarrow> progress \<times> pystate" where
  "coro_send [] s = (Finished, s)"
| "coro_send (Await # k) s = (Suspended k, s)"
| "coro_send (Run a # k) s =
     (case a s of
        (None, s') \<Rightarrow> coro_send k s'
      | (Some e, s') \<Rightarrow> (Failed e, s'))"

lemma coro_send_shorter:
  "coro_send c s = (Suspended k, s') \<Longrightarrow> length k < length c"
proof (induction c s rule: coro_send.induct)
  case (3 a k0 s)
  then show ?case
    by (cases "a s") (auto split: option.splits dest: less_SucI)
qed auto

text \<open>
  \<^verbatim>\<open>asyncio.run(coro)\<close> starts a fresh event loop with \<open>coro\<close> as its only task and
  resumes that task until it completes; the task's exception, if any, propagates to the
  caller. No other task exists unless the coroutine creates one, and a step cannot.
\<close>

function run_until_complete :: "costep list \<Rightarrow> action" where
  "run_until_complete c s =
     (case coro_send c s of
        (Finished, s') \<Rightarrow> (None, s')
      | (Failed e, s') \<Rightarrow> (Some e, s')
      | (Suspended k, s') \<Rightarrow> run_until_complete k s')"
  by pat_completeness auto
termination
  by (relation "measure (\<lambda>(c, s). length c)") (auto dest: coro_send_shorter [OF sym])

definition asyncio_run :: "costep list \<Rightarrow> action" where
  "asyncio_run c = run_until_complete c"

section \<open>The script\<close>

text \<open>Lines 13 to 41: the coroutine, one step per \<^verbatim>\<open>print\<close> call, in source order.\<close>

definition test_scraper_timing :: "costep list" where
  "test_scraper_timing =
    [Run (print ''Testing Scraper Wait Times\<newline>''),
     Run (print (str_mul ''='' 60)),
     Run (print ''\<newline>OLD Wait Strategy:''),
     Run (print ''  - Initial wait: 1000ms''),
     Run (print ''  - Scroll (2 steps @ 400ms): 800ms''),
     Run (print ''  - Network wait: 800ms''),
     Run (print ''  - Total: ~2.6 seconds''),
     Run (print ''\<newline>NEW Wait Strategy:''),
     Run (print ''  - Initial wait: 2000ms''),
     Run (print ''  - Scroll (4 steps @ 800ms): 3200ms''),
     Run (print ''  - Network wait: 2000ms''),
     Run (print ''  - Total: ~7.2 seconds''),
     Run (print ''\<newline>Improvement:''),
     Run (print ''  - 2.8x longer wait time''),
     Run (print ''  - More scrolling to trigger lazy-loaded content''),
     Run (print ''  - Better chance addresses will render before scraping''),
     Run (print (''\<newline>'' @ str_mul ''='' 60)),
     Run (print ''\<newline>Configuration updated successfully!''),
     Run (print ''\<newline>To test with real data, run your scraper against''),
     Run (print ''   the address validation page and check if addresses''),
     Run (print ''   are now being returned.\<newline>'')]"

text \<open>
  Lines 6 to 11 and 43 to 44: the module body, run under the module name \<open>name\<close> from
  the file \<open>file\<close> (\<^verbatim>\<open>__name__\<close> and \<^verbatim>\<open>__file__\<close>). The \<^verbatim>\<open>async def\<close> statement only
  binds the name \<^verbatim>\<open>test_scraper_timing\<close>.
\<close>

definition script :: "string \<Rightarrow> string \<Rightarrow> action" where
  "script name file =
     exec_seq
      [py_import ''asyncio'',
       py_import ''sys'',
       py_import ''os'',
       sys_path_insert 0 (os_path_join (os_path_dirname file) ''backend''),
       (\<lambda>s. if name = ''__main__'' then asyncio_run test_scraper_timing s else (None, s))]"

text \<open>
  Starting the interpreter on a script: a fresh process with nothing written and nothing
  imported yet, the script's path and the extra arguments as \<^verbatim>\<open>sys.argv\<close>, the given
  environment, search path and filesystem. The script runs as \<^verbatim>\<open>__main__\<close>. The exit
  status is 0 after a normal end and 1 after an uncaught exception.
\<close>

definition fresh_process ::
  "string \<Rightarrow> string list \<Rightarrow> (string \<times> string) list \<Rightarrow> string list \<Rightarrow> (string \<times> string) list \<Rightarrow> pystate" where
  "fresh_process file args env path0 fs =
     \<lparr>stdout = [], sys_path = path0, sys_argv = file # args, os_environ = env,
      import_log = [], files = fs, network = []\<rparr>"

definition run_as_main ::
  "(string \<Rightarrow> string \<Rightarrow> action) \<Rightarrow> string \<Rightarrow> string list \<Rightarrow> (string \<times> string) list \<Rightarrow>
     string list \<Rightarrow> (string \<times> string) list \<Rightarrow> exn option \<times> pystate" where
  "run_as_main prog file args env path0 fs =
     prog ''__main__'' file (fresh_process file args env path0 fs)"

definition python3 ::
  "string \<Rightarrow> string list \<Rightarrow> (string \<times> string) list \<Rightarrow> string list \<Rightarrow> (string \<times> string) list \<Rightarrow>
     exn option \<times> pystate" where
  "python3 file args env path0 fs = run_as_main script file args env path0 fs"

definition exit_status :: "exn option \<times> pystate \<Rightarrow> int" where
  "exit_status r = (case fst r of None \<Rightarrow> 0 | Some e \<Rightarrow> 1)"

definition stdout_of :: "exn option \<times> pystate \<Rightarrow> string" where
  "stdout_of r = stdout (snd r)"

section \<open>Variants of the script the specification compares it with\<close>

text \<open>
  The statements of a coroutine body run as the body of an ordinary \<^verbatim>\<open>def\<close>: the same
  statements in the same order, called directly. (An ordinary procedure has no
  suspension points; the script's body has none to drop.)
\<close>

fun actions_of :: "costep list \<Rightarrow> action list" where
  "actions_of [] = []"
| "actions_of (Run a # k) = a # actions_of k"
| "actions_of (Await # k) = actions_of k"

definition call_sync :: "costep list \<Rightarrow> action" where
  "call_sync c = exec_seq (actions_of c)"

text \<open>The script with the asynchronous wrapper omitted: the body is called directly.\<close>

definition script_sync :: "string \<Rightarrow> string \<Rightarrow> action" where
  "script_sync name file =
     exec_seq
      [py_import ''asyncio'',
       py_import ''sys'',
       py_import ''os'',
       sys_path_insert 0 (os_path_join (os_path_dirname file) ''backend''),
       (\<lambda>s. if name = ''__main__'' then call_sync test_scraper_timing s else (None, s))]"

text \<open>The script with the statement of line 11 removed.\<close>

definition script_without_path_insert :: "string \<Rightarrow> string \<Rightarrow> action" where
  "script_without_path_insert name file =
     exec_seq
      [py_import ''asyncio'',
       py_import ''sys'',
       py_import ''os'',
       (\<lambda>s. if name = ''__main__'' then asyncio_run test_scraper_timing s else (None, s))]"

section \<open>The output block of section 6 of the specification\<close>

text \<open>
  The literal block of section 6, line by line, and the text it denotes: the lines joined
  by newlines. Comparing texts up to the platform's trailing-newline convention means
  comparing them with the newlines at their end removed.
\<close>

definition spec_section6 :: "string list" where
  "spec_section6 =
    [''Testing Scraper Wait Times'',
     [],
     ''============================================================'',
     [],
     ''OLD Wait Strategy:'',
     ''  - Initial wait: 1000ms'',
     ''  - Scroll (2 steps @ 400ms): 800ms'',
     ''  - Network wait: 800ms'',
     ''  - Total: ~2.6 seconds'',
     [],
     ''NEW Wait Strategy:'',
     ''  - Initial wait: 2000ms'',
     ''  - Scroll (4 steps @ 800ms): 3200ms'',
     ''  - Network wait: 2000ms'',
     ''  - Total: ~7.2 seconds'',
     [],
     ''Improvement:'',
     ''  - 2.8x longer wait time'',
     ''  - More scrolling to trigger lazy-loaded content'',
     ''  - Better chance addresses will render before scraping'',
     [],
     ''============================================================'',
     [],
     ''Configuration updated successfully!'',
     [],
     ''To test with real data, run your scraper against'',
     ''   the address validation page and check if addresses'',
     ''   are now being returned.'']"

fun join_lines :: "string list \<Rightarrow> string" where
  "join_lines [] = []"
| "join_lines [l] = l"
| "join_lines (l # m # ls) = l @ ''\<newline>'' @ join_lines (m # ls)"

definition rstrip_newlines :: "string \<Rightarrow> string" where
  "rstrip_newlines t = rev (dropWhile (\<lambda>c. c = CHR ''\<newline>'') (rev t))"

section \<open>Reading the output back\<close>

text \<open>
  The output as lines (\<^verbatim>\<open>str.split("\n")\<close>), the lines made of \<open>=\<close> only, the block of
  lines that follows a header up to the next blank line, and the decimal numbers that
  occur in a line, left to right.
\<close>

fun split_lines :: "string \<Rightarrow> string list" where
  "split_lines [] = [[]]"
| "split_lines (c # cs) =
     (if c = CHR ''\<newline>'' then [] # split_lines cs
      else (case split_lines cs of
              [] \<Rightarrow> [[c]]
            | l # ls \<Rightarrow> (c # l) # ls))"

definition is_separator :: "string \<Rightarrow> bool" where
  "is_separator l = (l \<noteq> [] \<and> filter (\<lambda>c. c \<noteq> CHR ''='') l = [])"

definition block_after :: "string \<Rightarrow> string list \<Rightarrow> string list" where
  "block_after header ls =
     takeWhile (\<lambda>l. l \<noteq> []) (drop 1 (dropWhile (\<lambda>l. l \<noteq> header) ls))"

definition digit_of :: "char \<Rightarrow> nat option" where
  "digit_of c = map_of (zip ''0123456789'' [0, 1, 2, 3, 4, 5, 6, 7, 8, 9]) c"

fun numbers_from :: "nat option \<Rightarrow> string \<Rightarrow> nat list" where
  "numbers_from cur [] = (case cur of None \<Rightarrow> [] | Some n \<Rightarrow> [n])"
| "numbers_from cur (c # cs) =
     (case digit_of c of
        Some d \<Rightarrow> numbers_from (Some (10 * (case cur of None \<Rightarrow> 0 | Some n \<Rightarrow> n) + d)) cs
      | None \<Rightarrow>
          (case cur of
             None \<Rightarrow> numbers_from None cs
           | Some n \<Rightarrow> n # numbers_from None cs))"

definition numbers_in :: "string \<Rightarrow> nat list" where
  "numbers_in l = numbers_from None l"

text \<open>
  A wait-strategy block shows an initial wait, a number of scroll steps and the wait per
  step, the scroll wait, the network wait (all in milliseconds) and a total in seconds
  with one decimal, kept here in tenths of a second. The improvement block starts with a
  ratio with one decimal, kept in tenths.
\<close>

datatype wait_block =
  WaitBlock (initial_ms: nat) (steps: nat) (step_ms: nat) (scroll_ms: nat) (network_ms: nat)
    (shown_tenths: nat)

definition read_block :: "string list \<Rightarrow> wait_block option" where
  "read_block ls =
     (case concat (map numbers_in ls) of
        [i, n, w, sc, nw, a, b] \<Rightarrow> Some (WaitBlock i n w sc nw (10 * a + b))
      | _ \<Rightarrow> None)"

definition read_ratio_tenths :: "string list \<Rightarrow> nat option" where
  "read_ratio_tenths ls =
     (case ls of
        [] \<Rightarrow> None
      | l # _ \<Rightarrow> (case numbers_in l of [a, b] \<Rightarrow> Some (10 * a + b) | _ \<Rightarrow> None))"

definition itemized_total_ms :: "wait_block \<Rightarrow> nat" where
  "itemized_total_ms b = initial_ms b + steps b * step_ms b + network_ms b"

definition shown_total_ms :: "wait_block \<Rightarrow> nat" where
  "shown_total_ms b = 100 * shown_tenths b"

text \<open>The quotient \<open>a / b\<close> rounded to the nearest tenth, in tenths.\<close>

definition ratio_tenths :: "nat \<Rightarrow> nat \<Rightarrow> nat" where
  "ratio_tenths a b = (20 * a + b) div (2 * b)"

definition figures_consistent :: "string list \<Rightarrow> bool" where
  "figures_consistent ls =
     (case read_block (block_after ''OLD Wait Strategy:'' ls) of
        None \<Rightarrow> False
      | Some old \<Rightarrow>
          (case read_block (block_after ''NEW Wait Strategy:'' ls) of
             None \<Rightarrow> False
           | Some new \<Rightarrow>
               (case read_ratio_tenths (block_after ''Improvement:'' ls) of
                  None \<Rightarrow> False
                | Some r \<Rightarrow>
                    itemized_total_ms old = shown_total_ms old \<and>
                    itemized_total_ms new = shown_total_ms new \<and>
                    ratio_tenths (itemized_total_ms new) (itemized_total_ms old) = r)))"

text \<open>
  The claim that standard output is the only thing a run changes: the state after the run
  is the state before it with another text on standard output.
\<close>

definition only_stdout_written :: "pystate \<Rightarrow> pystate \<Rightarrow> bool" where
  "only_stdout_written s s' = (s' = s\<lparr>stdout := stdout s'\<rparr>)"

section \<open>Running a coroutine that never suspends\<close>

lemma coro_send_no_await:
  "Await \<notin> set c \<Longrightarrow>
     coro_send c s =
       (case exec_seq (actions_of c) s of
          (None, s') \<Rightarrow> (Finished, s')
        | (Some e, s') \<Rightarrow> (Failed e, s'))"
proof (induction c s rule: coro_send.induct)
  case (1 s)
  show ?case by simp
next
  case (2 k s)
  then show ?case by simp
next
  case (3 a k s)
  show ?case
  proof (cases "a s")
    case (Pair r s')
    show ?thesis
    proof (cases r)
      case None
      with Pair 3 show ?thesis by simp
    next
      case (Some e)
      with Pair show ?thesis by simp
    qed
  qed
qed

lemma run_until_complete_no_await:
  "Await \<notin> set c \<Longrightarrow> run_until_complete c s = exec_seq (actions_of c) s"
proof -
  assume na: "Await \<notin> set c"
  obtain r s' where ex: "exec_seq (actions_of c) s = (r, s')"
    by (cases "exec_seq (actions_of c) s")
  show ?thesis
  proof (cases r)
    case None
    with ex na show ?thesis by (simp add: coro_send_no_await)
  next
    case (Some e)
    with ex na show ?thesis by (simp add: coro_send_no_await)
  qed
qed

lemma no_await_in_body: "Await \<notin> set test_scraper_timing"
  by (simp add: test_scraper_timing_def)

lemma separator_60:
  "str_mul ''='' 60 = ''============================================================''"
  by (simp add: str_mul_def eval_nat_numeral)

lemma body_effect:
  "exec_seq (actions_of test_scraper_timing) s =
     (None, s\<lparr>stdout := stdout s @ join_lines spec_section6 @ ''\<newline>\<newline>''\<rparr>)"
  by (simp add: test_scraper_timing_def print_def separator_60 spec_section6_def)

lemma asyncio_run_body:
  "asyncio_run test_scraper_timing s =
     (None, s\<lparr>stdout := stdout s @ join_lines spec_section6 @ ''\<newline>\<newline>''\<rparr>)"
  by (simp only: asyncio_run_def run_until_complete_no_await [OF no_await_in_body] body_effect)

section \<open>What one run of the script does\<close>

text \<open>
  Run as \<^verbatim>\<open>__main__\<close> from any state, the script ends normally and changes three
  components: the import trace, the search path and standard output.
\<close>

lemma script_main_effect:
  "script ''__main__'' file s =
     (None,
      s\<lparr>import_log := import_log s @
           [(''asyncio'', sys_path s), (''sys'', sys_path s), (''os'', sys_path s)],
        sys_path := os_path_join (os_path_dirname file) ''backend'' # sys_path s,
        stdout := stdout s @ join_lines spec_section6 @ ''\<newline>\<newline>''\<rparr>)"
  by (simp add: script_def py_import_def sys_path_insert_def list_insert_def asyncio_run_body)

lemma script_sync_main_effect:
  "script_sync ''__main__'' file s =
     (None,
      s\<lparr>import_log := import_log s @
           [(''asyncio'', sys_path s), (''sys'', sys_path s), (''os'', sys_path s)],
        sys_path := os_path_join (os_path_dirname file) ''backend'' # sys_path s,
        stdout := stdout s @ join_lines spec_section6 @ ''\<newline>\<newline>''\<rparr>)"
  by (simp add: script_sync_def py_import_def sys_path_insert_def list_insert_def
      call_sync_def body_effect)

lemma script_without_path_insert_main_effect:
  "script_without_path_insert ''__main__'' file s =
     (None,
      s\<lparr>import_log := import_log s @
           [(''asyncio'', sys_path s), (''sys'', sys_path s), (''os'', sys_path s)],
        stdout := stdout s @ join_lines spec_section6 @ ''\<newline>\<newline>''\<rparr>)"
  by (simp add: script_without_path_insert_def py_import_def asyncio_run_body)

lemma python3_outcome:
  "python3 file args env path0 fs =
     (None,
      \<lparr>stdout = join_lines spec_section6 @ ''\<newline>\<newline>'',
       sys_path = os_path_join (os_path_dirname file) ''backend'' # path0,
       sys_argv = file # args,
       os_environ = env,
       import_log = [(''asyncio'', path0), (''sys'', path0), (''os'', path0)],
       files = fs,
       network = []\<rparr>)"
  by (simp add: python3_def run_as_main_def script_main_effect fresh_process_def)

lemma python3_stdout:
  "stdout_of (python3 file args env path0 fs) = join_lines spec_section6 @ ''\<newline>\<newline>''"
  by (simp add: stdout_of_def python3_outcome)

lemma rstrip_newlines_two:
  "rstrip_newlines (t @ ''\<newline>\<newline>'') = rstrip_newlines t"
  by (simp add: rstrip_newlines_def)

lemma split_lines_output:
  "split_lines (join_lines spec_section6 @ ''\<newline>\<newline>'') = spec_section6 @ [[], []]"
  by (simp add: spec_section6_def)

lemma output_lines:
  "split_lines (stdout_of (python3 file args env path0 fs)) = spec_section6 @ [[], []]"
  by (simp only: python3_stdout split_lines_output)

lemma old_block_read:
  "read_block (block_after ''OLD Wait Strategy:'' (spec_section6 @ [[], []])) =
     Some (WaitBlock 1000 2 400 800 800 26)"
  by (simp add: spec_section6_def block_after_def numbers_in_def digit_of_def read_block_def)

lemma new_block_read:
  "read_block (block_after ''NEW Wait Strategy:'' (spec_section6 @ [[], []])) =
     Some (WaitBlock 2000 4 800 3200 2000 72)"
  by (simp add: spec_section6_def block_after_def numbers_in_def digit_of_def read_block_def)

lemma ratio_read:
  "read_ratio_tenths (block_after ''Improvement:'' (spec_section6 @ [[], []])) = Some 28"
  by (simp add: spec_section6_def block_after_def numbers_in_def digit_of_def
      read_ratio_tenths_def)

lemma separators_of_output:
  "filter is_separator (spec_section6 @ [[], []]) =
     [replicate 60 (CHR ''=''), replicate 60 (CHR ''='')]"
  by (simp add: spec_section6_def is_separator_def eval_nat_numeral)

lemma exec_seq_all_normal:
  "filter (\<lambda>a. fst (a s) \<noteq> None) (actions_of test_scraper_timing) = []"
  by (simp add: test_scraper_timing_def print_def)

section \<open>The claims\<close>

text \<open>
  C1. Run with no arguments, the program writes to standard output the literal block of
  section 6 of the specification, every line in the stated order: the text written is
  the block's lines joined by newlines, followed by the newline that ends the last line
  and one blank line; with the newlines at the end removed on both sides, the two texts
  are equal character for character.
\<close>

theorem C1_output_is_section6:
  "stdout_of (python3 file [] env path0 fs) = join_lines spec_section6 @ ''\<newline>\<newline>'' \<and>
   rstrip_newlines (stdout_of (python3 file [] env path0 fs)) =
     rstrip_newlines (join_lines spec_section6)"
proof
  show first: "stdout_of (python3 file [] env path0 fs) =
      join_lines spec_section6 @ ''\<newline>\<newline>''"
    by (rule python3_stdout)
  show "rstrip_newlines (stdout_of (python3 file [] env path0 fs)) =
      rstrip_newlines (join_lines spec_section6)"
    unfolding first by (rule rstrip_newlines_two)
qed

text \<open>
  C2, as stated: standard output is the only thing a run changes. It fails. Started as
  \<^verbatim>\<open>python3 test-scraper-waits.py\<close> with the search path \<^verbatim>\<open>["/usr/lib/python3"]\<close>, the
  run leaves the search path \<^verbatim>\<open>["backend", "/usr/lib/python3"]\<close>: line 11 inserts
  the entry on purpose.
\<close>

theorem C2_sys_path_mutated:
  "sys_path (fresh_process ''test-scraper-waits.py'' [] [] [''/usr/lib/python3''] []) =
     [''/usr/lib/python3''] \<and>
   sys_path (snd (python3 ''test-scraper-waits.py'' [] [] [''/usr/lib/python3''] [])) =
     [''backend'', ''/usr/lib/python3''] \<and>
   \<not> only_stdout_written
       (fresh_process ''test-scraper-waits.py'' [] [] [''/usr/lib/python3''] [])
       (snd (python3 ''test-scraper-waits.py'' [] [] [''/usr/lib/python3''] []))"
  by (simp add: python3_outcome fresh_process_def only_stdout_written_def
      os_path_dirname_def os_path_join_def)

text \<open>
  C2, amended. From any state, a run of the script as \<^verbatim>\<open>__main__\<close> appends its text to
  standard output, puts one entry (the script's directory joined with \<^verbatim>\<open>backend\<close>) at
  the front of the module search path, and loads the modules \<^verbatim>\<open>asyncio\<close>, \<^verbatim>\<open>sys\<close> and
  \<^verbatim>\<open>os\<close>; it changes nothing else: the filesystem, the network traffic, the argument
  vector and the environment are as before.
\<close>

theorem C2_frame:
  "snd (script ''__main__'' file s) =
     s\<lparr>stdout := stdout s @ join_lines spec_section6 @ ''\<newline>\<newline>'',
       sys_path := os_path_join (os_path_dirname file) ''backend'' # sys_path s,
       import_log := import_log s @
         [(''asyncio'', sys_path s), (''sys'', sys_path s), (''os'', sys_path s)]\<rparr> \<and>
   files (snd (script ''__main__'' file s)) = files s \<and>
   network (snd (script ''__main__'' file s)) = network s \<and>
   sys_argv (snd (script ''__main__'' file s)) = sys_argv s \<and>
   os_environ (snd (script ''__main__'' file s)) = os_environ s"
proof -
  let ?s' = "snd (script ''__main__'' file s)"
  have eq: "?s' =
     s\<lparr>import_log := import_log s @
           [(''asyncio'', sys_path s), (''sys'', sys_path s), (''os'', sys_path s)],
        sys_path := os_path_join (os_path_dirname file) ''backend'' # sys_path s,
        stdout := stdout s @ join_lines spec_section6 @ ''\<newline>\<newline>''\<rparr>"
    by (simp only: script_main_effect snd_conv)
  have untouched: "files ?s' = files s" "network ?s' = network s"
      "sys_argv ?s' = sys_argv s" "os_environ ?s' = os_environ s"
    by (simp_all add: eq)
  from eq have "?s' =
     s\<lparr>stdout := stdout s @ join_lines spec_section6 @ ''\<newline>\<newline>'',
       sys_path := os_path_join (os_path_dirname file) ''backend'' # sys_path s,
       import_log := import_log s @
         [(''asyncio'', sys_path s), (''sys'', sys_path s), (''os'', sys_path s)]\<rparr>"
    by simp
  with untouched show ?thesis by blast
qed

text \<open>
  C3. Every invocation terminates and exits with status 0. The model of a run is a total
  function, the only recursion in it (the event loop) has a termination proof, and for
  every script path, argument list, environment, search path and filesystem the run ends
  without an exception, so the exit status is 0. The coroutine has no suspension point:
  its first resumption runs it to its end, from any state.
\<close>

theorem C3_terminates_with_status_0:
  "fst (python3 file args env path0 fs) = None \<and>
   exit_status (python3 file args env path0 fs) = 0 \<and>
   Await \<notin> set test_scraper_timing \<and>
   fst (coro_send test_scraper_timing s) = Finished"
proof (intro conjI)
  show normal: "fst (python3 file args env path0 fs) = None"
    by (simp add: python3_outcome)
  then show "exit_status (python3 file args env path0 fs) = 0"
    by (simp add: exit_status_def)
  show "Await \<notin> set test_scraper_timing"
    by (rule no_await_in_body)
  then show "fst (coro_send test_scraper_timing s) = Finished"
    by (simp add: coro_send_no_await body_effect)
qed

text \<open>
  C4. The output does not depend on the inputs: a run with any arguments \<open>args\<close> and any
  environment \<open>env\<close> writes the same standard output as a run with no arguments and
  any other environment \<open>env0\<close> (and so does a run started from another path, with
  another search path or on another filesystem).
\<close>

theorem C4_output_independent_of_inputs:
  "stdout_of (python3 file args env path0 fs) = stdout_of (python3 file0 [] env0 path1 fs0)"
proof -
  have "stdout_of (python3 file args env path0 fs) =
      join_lines spec_section6 @ ''\<newline>\<newline>''"
    by (rule python3_stdout)
  also have "\<dots> = stdout_of (python3 file0 [] env0 path1 fs0)"
    by (rule python3_stdout [symmetric])
  finally show ?thesis .
qed

text \<open>
  C5. Running the program twice in succession gives the same standard output both times.
  The second process starts fresh on the filesystem the first one left; the first one
  leaves the filesystem as it found it.
\<close>

theorem C5_second_run_same_output:
  "stdout_of (python3 file args env path0 (files (snd (python3 file args env path0 fs)))) =
     stdout_of (python3 file args env path0 fs) \<and>
   files (snd (python3 file args env path0 fs)) = fs"
  by (simp add: python3_stdout) (simp add: python3_outcome)

text \<open>
  C6. The body of the reporting operation raises no exception: from any state, no
  statement of the body raises, the body run by the event loop ends normally, and so
  does the whole script.
\<close>

theorem C6_no_exception:
  "filter (\<lambda>a. fst (a s) \<noteq> None) (actions_of test_scraper_timing) = [] \<and>
   fst (asyncio_run test_scraper_timing s) = None \<and>
   fst (script ''__main__'' file s) = None"
proof (intro conjI)
  show "filter (\<lambda>a. fst (a s) \<noteq> None) (actions_of test_scraper_timing) = []"
    by (rule exec_seq_all_normal)
  show "fst (asyncio_run test_scraper_timing s) = None"
    by (simp add: asyncio_run_body)
  show "fst (script ''__main__'' file s) = None"
    by (simp add: script_main_effect)
qed

text \<open>
  C7. The asynchronous wrapper changes nothing: the body contains no suspension point,
  the event loop running it does exactly what calling its statements in order does, and
  the script with the body called as an ordinary procedure has the same outcome (the
  same final state, hence the same standard output, and the same exit status).
\<close>

theorem C7_async_wrapper_is_noop:
  "Await \<notin> set test_scraper_timing \<and>
   asyncio_run test_scraper_timing s = call_sync test_scraper_timing s \<and>
   python3 file args env path0 fs = run_as_main script_sync file args env path0 fs \<and>
   stdout_of (python3 file args env path0 fs) =
     stdout_of (run_as_main script_sync file args env path0 fs) \<and>
   exit_status (python3 file args env path0 fs) =
     exit_status (run_as_main script_sync file args env path0 fs)"
proof -
  have loop: "asyncio_run test_scraper_timing s = call_sync test_scraper_timing s"
    unfolding asyncio_run_def call_sync_def
    by (rule run_until_complete_no_await [OF no_await_in_body])
  have same: "python3 file args env path0 fs = run_as_main script_sync file args env path0 fs"
    by (simp only: python3_def run_as_main_def script_main_effect script_sync_main_effect)
  from no_await_in_body loop same show ?thesis by simp
qed

text \<open>
  C8. The output has exactly two lines made of \<open>=\<close> only, and each consists of exactly
  60 of them.
\<close>

theorem C8_separators_are_60:
  "filter is_separator (split_lines (stdout_of (python3 file args env path0 fs))) =
     [replicate 60 (CHR ''=''), replicate 60 (CHR ''='')]"
  by (simp only: output_lines separators_of_output)

text \<open>
  C9. The entry added to the module search path is dead code. The script's imports are
  \<^verbatim>\<open>asyncio\<close>, \<^verbatim>\<open>sys\<close> and \<^verbatim>\<open>os\<close>, and each of them ran under the search path the
  process started with, before the entry was added; nothing is imported afterwards. The
  script without line 11 writes the same standard output and exits with the same status.
\<close>

theorem C9_path_insert_is_dead_code:
  "import_log (snd (python3 file args env path0 fs)) =
     [(''asyncio'', path0), (''sys'', path0), (''os'', path0)] \<and>
   stdout_of (run_as_main script_without_path_insert file args env path0 fs) =
     stdout_of (python3 file args env path0 fs) \<and>
   exit_status (run_as_main script_without_path_insert file args env path0 fs) =
     exit_status (python3 file args env path0 fs)"
proof -
  have variant: "run_as_main script_without_path_insert file args env path0 fs =
     (None,
      (fresh_process file args env path0 fs)
        \<lparr>import_log := [(''asyncio'', path0), (''sys'', path0), (''os'', path0)],
         stdout := join_lines spec_section6 @ ''\<newline>\<newline>''\<rparr>)"
    by (simp add: run_as_main_def script_without_path_insert_main_effect fresh_process_def)
  show ?thesis
    by (simp add: variant python3_outcome stdout_of_def exit_status_def)
qed

text \<open>
  C10. The derived figures in the output agree with the itemized ones. Read back from
  the output, the OLD block itemizes 1000 + 2 * 400 + 800 = 2600 ms and shows 2.6
  seconds, the NEW block itemizes 2000 + 4 * 800 + 2000 = 7200 ms and shows 7.2 seconds,
  and the ratio shown, 2.8, is 7200 / 2600 rounded to one decimal.
\<close>

theorem C10_figures_consistent:
  "map_option itemized_total_ms
     (read_block (block_after ''OLD Wait Strategy:''
        (split_lines (stdout_of (python3 file args env path0 fs))))) = Some 2600 \<and>
   map_option shown_total_ms
     (read_block (block_after ''OLD Wait Strategy:''
        (split_lines (stdout_of (python3 file args env path0 fs))))) = Some 2600 \<and>
   map_option itemized_total_ms
     (read_block (block_after ''NEW Wait Strategy:''
        (split_lines (stdout_of (python3 file args env path0 fs))))) = Some 7200 \<and>
   map_option shown_total_ms
     (read_block (block_after ''NEW Wait Strategy:''
        (split_lines (stdout_of (python3 file args env path0 fs))))) = Some 7200 \<and>
   read_ratio_tenths (block_after ''Improvement:''
        (split_lines (stdout_of (python3 file args env path0 fs)))) = Some 28 \<and>
   ratio_tenths 7200 2600 = 28 \<and>
   figures_consistent (split_lines (stdout_of (python3 file args env path0 fs)))"
proof -
  have r: "ratio_tenths 7200 2600 = 28"
    by (simp add: ratio_tenths_def)
  have "figures_consistent (spec_section6 @ [[], []])"
    unfolding figures_consistent_def old_block_read new_block_read ratio_read
    by (simp add: itemized_total_ms_def shown_total_ms_def r)
  then show ?thesis
    unfolding output_lines old_block_read new_block_read ratio_read
    by (simp add: itemized_total_ms_def shown_total_ms_def r)
qed

end
